theory Spec2Isabelle
  imports Main
begin

section \<open>Python values: exceptions, dictionaries, attribute lookup\<close>

text \<open>
  The view code of \<^verbatim>\<open>listings/views.py\<close> runs inside Django REST framework. An exception
  that leaves a handler is a value here: \<open>Inl\<close> of the exception, \<open>Inr\<close> of the result.
\<close>

datatype exn =
    KeyError string
  | AttributeError string
  | TypeError
  | ValueError
  | FieldError string
  | AssertionError
  | DoesNotExist
  | IntegrityError
  | MultipleObjectsReturned
  | Http404
  | NotAuthenticated
  | PermissionDenied
  | ValidationError
  | MethodNotAllowed

definition and_then :: "exn + 'a \<Rightarrow> ('a \<Rightarrow> exn + 'b) \<Rightarrow> exn + 'b" where
  \<comment> \<open>sequencing of two statements, the first of which may raise\<close>
  "and_then m f = (case m of Inl x \<Rightarrow> Inl x | Inr a \<Rightarrow> f a)"

definition subscript :: "(string \<rightharpoonup> 'v) \<Rightarrow> string \<Rightarrow> exn + 'v" where
  \<comment> \<open>\<^verbatim>\<open>d[k]\<close> on a dict\<close>
  "subscript d k = (case d k of None \<Rightarrow> Inl (KeyError k) | Some x \<Rightarrow> Inr x)"

subsection \<open>Principals and HTTP methods\<close>

datatype user = AnonymousUser | User nat

fun is_authenticated :: "user \<Rightarrow> bool" where
  "is_authenticated AnonymousUser = False"
| "is_authenticated (User n) = True"

datatype http_method = GET | HEAD | OPTIONS | POST | PUT | PATCH | DELETE

definition SAFE_METHODS :: "http_method list" where
  "SAFE_METHODS = [GET, HEAD, OPTIONS]"

subsection \<open>The models\<close>

text \<open>
  Modelled from the spec: \<^verbatim>\<open>listings/models.py\<close> is not among the sources. The spec's data
  model gives a Listing a unique slug and an owner, a Booking a guest, a status
  (PENDING, CONFIRMED, CANCELLED) and a listing, a Review an author and a listing. The field
  names are the ones \<^verbatim>\<open>views.py\<close> reads and writes (\<^verbatim>\<open>owner\<close>, \<^verbatim>\<open>slug\<close>, \<^verbatim>\<open>guest\<close>,
  \<^verbatim>\<open>status\<close>, \<^verbatim>\<open>author\<close>, \<^verbatim>\<open>listing\<close>); user and listing references hold the primary key.
\<close>

datatype BookingStatus = PENDING | CONFIRMED | CANCELLED

record listing =
  l_pk :: int
  l_slug :: string
  l_owner :: nat

record booking =
  b_pk :: int
  b_guest :: nat
  b_status :: BookingStatus
  b_listing :: int

record review =
  r_pk :: int
  r_author :: nat
  r_listing :: int

record database =
  Listing_objects :: "listing list"
  Booking_objects :: "booking list"
  Review_objects :: "review list"

datatype obj = ListingObj listing | BookingObj booking | ReviewObj review

datatype val = StrV string | IntV int | UserV user | ListingV listing | StatusV BookingStatus

subsection \<open>Classes as namespaces\<close>

text \<open>
  A class body is the list of the names it binds; \<^verbatim>\<open>self.name\<close> reads the first binding
  found in the instance, then in the class, then in its base class. A name nobody reads
  (a misspelt one) is bound all the same and changes nothing that the framework looks up.
\<close>

datatype permission = AllowAny | IsAuthenticated | IsAuthenticatedOrReadOnly | IsOwnerOrReadOnly

datatype serializer_class =
  UserSerializer | ListingSerializer | ListingDetailSerializer | BookingSerializer | ReviewSerializer

datatype attr =
    Str string
  | Perms "permission list"
  | Ser serializer_class
  | Manager string
  | NoneVal

type_synonym namespace = "(string \<times> attr) list"

definition getattr :: "namespace \<Rightarrow> string \<Rightarrow> exn + attr" where
  "getattr ns name = (case map_of ns name of None \<Rightarrow> Inl (AttributeError name) | Some a \<Rightarrow> Inr a)"

text \<open>
  What the code takes from the parts of the project that are not among the sources:
  the REST framework settings' default permission classes (\<^verbatim>\<open>settings.py\<close>), the coercion
  of a URL segment to a primary key value (the model's key field), the owner comparison of
  \<^verbatim>\<open>IsOwnerOrReadOnly\<close> (\<^verbatim>\<open>permissions.py\<close>) and the validation and field update of
  \<^verbatim>\<open>BookingSerializer\<close> (\<^verbatim>\<open>serializers.py\<close>). They are parameters of the model.
\<close>

record env =
  DEFAULT_PERMISSION_CLASSES :: "permission list"
  to_pk :: "string \<Rightarrow> int option"
  is_owner :: "user \<Rightarrow> obj \<Rightarrow> bool"
  BookingSerializer_is_valid :: "(string \<rightharpoonup> val) \<Rightarrow> exn + (string \<rightharpoonup> val)"
  BookingSerializer_update :: "booking \<Rightarrow> (string \<rightharpoonup> val) \<Rightarrow> exn + booking"

definition GenericAPIView_attrs :: "env \<Rightarrow> namespace" where
  \<comment> \<open>the class attributes of the framework's \<^verbatim>\<open>GenericAPIView\<close> that the views inherit\<close>
  "GenericAPIView_attrs e =
     [(''queryset'', NoneVal),
      (''serializer_class'', NoneVal),
      (''lookup_field'', Str ''pk''),
      (''lookup_url_kwarg'', NoneVal),
      (''permission_classes'', Perms (DEFAULT_PERMISSION_CLASSES e))]"

definition UserViewset_attrs :: namespace where
  "UserViewset_attrs =
     [(''queryset'', Manager ''User''),
      (''serializer_class'', Ser UserSerializer),
      (''permission_classes'', Perms [IsAuthenticated])]"

definition ListingViewset_attrs :: namespace where
  "ListingViewset_attrs =
     [(''queryset'', Manager ''Listing''),
      (''lookkup_field'', Str ''slug'')]"

definition BookingViewset_attrs :: namespace where
  "BookingViewset_attrs =
     [(''serializer_class'', Ser BookingSerializer),
      (''permission_classes'', Perms [IsAuthenticated, IsOwnerOrReadOnly])]"

definition ReviewViewSet_attrs :: namespace where
  "ReviewViewSet_attrs =
     [(''serializer_class'', Ser ReviewSerializer),
      (''permission_class'', Perms [IsAuthenticatedOrReadOnly, IsOwnerOrReadOnly])]"

subsection \<open>The view instance and the responses\<close>

record view =
  v_action :: string
  v_method :: http_method
  v_user :: user
  v_data :: "string \<rightharpoonup> val"
  v_kwargs :: "string \<rightharpoonup> string"

datatype payload =
    Dict "(string \<times> string) list"
  | Bookings "booking list"
  | BookingData booking
  | NoContent

datatype response = Response payload nat

section \<open>Permission checks of the framework\<close>

text \<open>
  Modelled from the spec: \<^verbatim>\<open>listings/permissions.py\<close> is not among the sources. The spec's
  design notes give \<^verbatim>\<open>IsOwnerOrReadOnly\<close> as "object O is mutable by principal P iff
  P.safe_method OR P == O.owner_field": a check of the object, with \<open>is_owner\<close> the
  comparison with the owner field, and no check of the request as a whole. The other three
  classes are the framework's: they check the request and allow every object.
\<close>

fun has_permission :: "permission \<Rightarrow> view \<Rightarrow> bool" where
  "has_permission AllowAny v = True"
| "has_permission IsAuthenticated v = is_authenticated (v_user v)"
| "has_permission IsAuthenticatedOrReadOnly v =
     (v_method v \<in> set SAFE_METHODS \<or> is_authenticated (v_user v))"
| "has_permission IsOwnerOrReadOnly v = True"

fun has_object_permission :: "env \<Rightarrow> permission \<Rightarrow> view \<Rightarrow> obj \<Rightarrow> bool" where
  "has_object_permission e IsOwnerOrReadOnly v ob =
     (v_method v \<in> set SAFE_METHODS \<or> is_owner e (v_user v) ob)"
| "has_object_permission e p v ob = True"

definition permission_denied :: "view \<Rightarrow> exn" where
  "permission_denied v = (if is_authenticated (v_user v) then PermissionDenied else NotAuthenticated)"

definition check_permissions :: "permission list \<Rightarrow> view \<Rightarrow> exn + unit" where
  "check_permissions ps v =
     (if list_all (\<lambda>p. has_permission p v) ps then Inr () else Inl (permission_denied v))"

definition check_object_permissions :: "env \<Rightarrow> permission list \<Rightarrow> view \<Rightarrow> obj \<Rightarrow> exn + unit" where
  "check_object_permissions e ps v ob =
     (if list_all (\<lambda>p. has_object_permission e p v ob) ps then Inr ()
      else Inl (permission_denied v))"

definition APIView_get_permissions :: "namespace \<Rightarrow> exn + permission list" where
  \<comment> \<open>\<^verbatim>\<open>[permission() for permission in self.permission_classes]\<close>\<close>
  "APIView_get_permissions self =
     and_then (getattr self ''permission_classes'')
       (\<lambda>a. case a of Perms ps \<Rightarrow> Inr ps | _ \<Rightarrow> Inl TypeError)"

section \<open>ListingViewset\<close>

definition ListingViewset_get_serializer_class :: "view \<Rightarrow> serializer_class" where
  "ListingViewset_get_serializer_class v =
     (if v_action v = ''retireve'' then ListingDetailSerializer else ListingSerializer)"

definition ListingViewset_get_permissions :: "env \<Rightarrow> view \<Rightarrow> exn + permission list" where
  "ListingViewset_get_permissions e v =
     (let inst =
        (if v_action v \<in> set [''list'', ''retrieve'']
         then [(''permissions_classes'', Perms [AllowAny])]
         else [(''permissions_classes'', Perms [IsAuthenticated, IsOwnerOrReadOnly])])
      in APIView_get_permissions (inst @ ListingViewset_attrs @ GenericAPIView_attrs e))"

definition initial :: "exn + permission list \<Rightarrow> view \<Rightarrow> exn + unit" where
  \<comment> \<open>\<^verbatim>\<open>APIView.initial\<close>, run before the handler: \<^verbatim>\<open>self.check_permissions(request)\<close>\<close>
  "initial perms v = and_then perms (\<lambda>ps. check_permissions ps v)"

section \<open>The framework's status module\<close>

definition status_module :: "(string \<times> nat) list" where
  "status_module =
     [(''HTTP_100_CONTINUE'', 100), (''HTTP_101_SWITCHING_PROTOCOLS'', 101),
      (''HTTP_102_PROCESSING'', 102), (''HTTP_103_EARLY_HINTS'', 103),
      (''HTTP_200_OK'', 200), (''HTTP_201_CREATED'', 201), (''HTTP_202_ACCEPTED'', 202),
      (''HTTP_203_NON_AUTHORITATIVE_INFORMATION'', 203), (''HTTP_204_NO_CONTENT'', 204),
      (''HTTP_205_RESET_CONTENT'', 205), (''HTTP_206_PARTIAL_CONTENT'', 206),
      (''HTTP_207_MULTI_STATUS'', 207), (''HTTP_208_ALREADY_REPORTED'', 208),
      (''HTTP_226_IM_USED'', 226),
      (''HTTP_300_MULTIPLE_CHOICES'', 300), (''HTTP_301_MOVED_PERMANENTLY'', 301),
      (''HTTP_302_FOUND'', 302), (''HTTP_303_SEE_OTHER'', 303), (''HTTP_304_NOT_MODIFIED'', 304),
      (''HTTP_305_USE_PROXY'', 305), (''HTTP_306_RESERVED'', 306),
      (''HTTP_307_TEMPORARY_REDIRECT'', 307), (''HTTP_308_PERMANENT_REDIRECT'', 308),
      (''HTTP_400_BAD_REQUEST'', 400), (''HTTP_401_UNAUTHORIZED'', 401),
      (''HTTP_402_PAYMENT_REQUIRED'', 402), (''HTTP_403_FORBIDDEN'', 403),
      (''HTTP_404_NOT_FOUND'', 404), (''HTTP_405_METHOD_NOT_ALLOWED'', 405),
      (''HTTP_406_NOT_ACCEPTABLE'', 406), (''HTTP_407_PROXY_AUTHENTICATION_REQUIRED'', 407),
      (''HTTP_408_REQUEST_TIMEOUT'', 408), (''HTTP_409_CONFLICT'', 409), (''HTTP_410_GONE'', 410),
      (''HTTP_411_LENGTH_REQUIRED'', 411), (''HTTP_412_PRECONDITION_FAILED'', 412),
      (''HTTP_413_REQUEST_ENTITY_TOO_LARGE'', 413), (''HTTP_414_REQUEST_URI_TOO_LONG'', 414),
      (''HTTP_415_UNSUPPORTED_MEDIA_TYPE'', 415),
      (''HTTP_416_REQUESTED_RANGE_NOT_SATISFIABLE'', 416),
      (''HTTP_417_EXPECTATION_FAILED'', 417), (''HTTP_418_IM_A_TEAPOT'', 418),
      (''HTTP_421_MISDIRECTED_REQUEST'', 421), (''HTTP_422_UNPROCESSABLE_ENTITY'', 422),
      (''HTTP_423_LOCKED'', 423), (''HTTP_424_FAILED_DEPENDENCY'', 424),
      (''HTTP_425_TOO_EARLY'', 425), (''HTTP_426_UPGRADE_REQUIRED'', 426),
      (''HTTP_428_PRECONDITION_REQUIRED'', 428), (''HTTP_429_TOO_MANY_REQUESTS'', 429),
      (''HTTP_431_REQUEST_HEADER_FIELDS_TOO_LARGE'', 431),
      (''HTTP_451_UNAVAILABLE_FOR_LEGAL_REASONS'', 451),
      (''HTTP_500_INTERNAL_SERVER_ERROR'', 500), (''HTTP_501_NOT_IMPLEMENTED'', 501),
      (''HTTP_502_BAD_GATEWAY'', 502), (''HTTP_503_SERVICE_UNAVAILABLE'', 503),
      (''HTTP_504_GATEWAY_TIMEOUT'', 504), (''HTTP_505_HTTP_VERSION_NOT_SUPPORTED'', 505),
      (''HTTP_506_VARIANT_ALSO_NEGOTIATES'', 506), (''HTTP_507_INSUFFICIENT_STORAGE'', 507),
      (''HTTP_508_LOOP_DETECTED'', 508), (''HTTP_509_BANDWIDTH_LIMIT_EXCEEDED'', 509),
      (''HTTP_510_NOT_EXTENDED'', 510), (''HTTP_511_NETWORK_AUTHENTICATION_REQUIRED'', 511)]"

definition status_attr :: "string \<Rightarrow> exn + nat" where
  \<comment> \<open>\<^verbatim>\<open>status.NAME\<close>: a name the module does not bind raises \<^verbatim>\<open>AttributeError\<close>\<close>
  "status_attr name =
     (case map_of status_module name of None \<Rightarrow> Inl (AttributeError name) | Some c \<Rightarrow> Inr c)"

section \<open>Object lookup of the framework\<close>

fun get_object_or_404 :: "exn + 'a list \<Rightarrow> exn + 'a" where
  \<comment> \<open>the framework's wrapper of \<^verbatim>\<open>queryset.get(**filter_kwargs)\<close>\<close>
  "get_object_or_404 (Inl TypeError) = Inl Http404"
| "get_object_or_404 (Inl ValueError) = Inl Http404"
| "get_object_or_404 (Inl ValidationError) = Inl Http404"
| "get_object_or_404 (Inl x) = Inl x"
| "get_object_or_404 (Inr []) = Inl Http404"
| "get_object_or_404 (Inr [a]) = Inr a"
| "get_object_or_404 (Inr (a # b # rest)) = Inl MultipleObjectsReturned"

definition lookup_field :: "namespace \<Rightarrow> exn + string" where
  "lookup_field self =
     and_then (getattr self ''lookup_field'')
       (\<lambda>a. case a of Str s \<Rightarrow> Inr s | _ \<Rightarrow> Inl TypeError)"

definition lookup_url_kwarg :: "namespace \<Rightarrow> exn + string" where
  \<comment> \<open>\<^verbatim>\<open>self.lookup_url_kwarg or self.lookup_field\<close>\<close>
  "lookup_url_kwarg self =
     and_then (getattr self ''lookup_url_kwarg'')
       (\<lambda>a. case a of
              Str s \<Rightarrow> (if s = [] then lookup_field self else Inr s)
            | NoneVal \<Rightarrow> lookup_field self
            | _ \<Rightarrow> Inl TypeError)"

definition get_object ::
  "env \<Rightarrow> namespace \<Rightarrow> exn + permission list \<Rightarrow> view \<Rightarrow> exn + 'a list \<Rightarrow>
   (string \<Rightarrow> string \<Rightarrow> 'a list \<Rightarrow> exn + 'a list) \<Rightarrow> ('a \<Rightarrow> obj) \<Rightarrow> exn + 'a" where
  \<comment> \<open>\<^verbatim>\<open>GenericAPIView.get_object\<close>: the queryset, the lookup, then the object permissions\<close>
  "get_object e self perms v queryset filter_by as_obj =
     and_then queryset (\<lambda>qs.
     and_then (lookup_url_kwarg self) (\<lambda>kw.
       if v_kwargs v kw = None then Inl AssertionError
       else
         and_then (lookup_field self) (\<lambda>field.
         and_then (subscript (v_kwargs v) kw) (\<lambda>x.
         and_then (get_object_or_404 (filter_by field x qs)) (\<lambda>a.
         and_then perms (\<lambda>ps.
         and_then (check_object_permissions e ps v (as_obj a)) (\<lambda>u. Inr a)))))))"

section \<open>The model managers\<close>

definition Listing_filter :: "env \<Rightarrow> string \<Rightarrow> string \<Rightarrow> listing list \<Rightarrow> exn + listing list" where
  \<comment> \<open>\<^verbatim>\<open>queryset.filter(**{field: x})\<close> on listings\<close>
  "Listing_filter e field x qs =
     (if field \<in> set [''pk'', ''id'']
      then (case to_pk e x of None \<Rightarrow> Inl ValueError
            | Some k \<Rightarrow> Inr (filter (\<lambda>l. l_pk l = k) qs))
      else if field = ''slug'' then Inr (filter (\<lambda>l. l_slug l = x) qs)
      else Inl (FieldError field))"

definition Booking_filter :: "env \<Rightarrow> string \<Rightarrow> string \<Rightarrow> booking list \<Rightarrow> exn + booking list" where
  "Booking_filter e field x qs =
     (if field \<in> set [''pk'', ''id'']
      then (case to_pk e x of None \<Rightarrow> Inl ValueError
            | Some k \<Rightarrow> Inr (filter (\<lambda>b. b_pk b = k) qs))
      else Inl (FieldError field))"

definition Listing_objects_get_slug :: "database \<Rightarrow> string \<Rightarrow> exn + listing" where
  \<comment> \<open>\<^verbatim>\<open>Listing.objects.get(slug=s)\<close>\<close>
  "Listing_objects_get_slug db s =
     (case filter (\<lambda>l. l_slug l = s) (Listing_objects db) of
        [] \<Rightarrow> Inl DoesNotExist
      | [l] \<Rightarrow> Inr l
      | _ \<Rightarrow> Inl MultipleObjectsReturned)"

definition fresh_pk :: "int list \<Rightarrow> int" where
  "fresh_pk ks = fold max ks 0 + 1"

definition Listing_objects_create ::
  "database \<Rightarrow> (string \<rightharpoonup> val) \<Rightarrow> exn + (listing \<times> database)" where
  \<comment> \<open>\<^verbatim>\<open>Listing.objects.create(**validated_data)\<close>: the owner must be a saved user\<close>
  "Listing_objects_create db vd =
     (case vd ''owner'' of
        Some (UserV (User n)) \<Rightarrow>
          (let l = \<lparr>l_pk = fresh_pk (map l_pk (Listing_objects db)),
                    l_slug = (case vd ''slug'' of Some (StrV s) \<Rightarrow> s | _ \<Rightarrow> []),
                    l_owner = n\<rparr>
           in Inr (l, db\<lparr>Listing_objects := Listing_objects db @ [l]\<rparr>))
      | Some _ \<Rightarrow> Inl ValueError
      | None \<Rightarrow> Inl IntegrityError)"

definition Booking_objects_create ::
  "database \<Rightarrow> (string \<rightharpoonup> val) \<Rightarrow> exn + (booking \<times> database)" where
  "Booking_objects_create db vd =
     (case vd ''guest'' of
        Some (UserV (User n)) \<Rightarrow>
          (case vd ''listing'' of
             Some (ListingV l) \<Rightarrow>
               (let b = \<lparr>b_pk = fresh_pk (map b_pk (Booking_objects db)),
                         b_guest = n,
                         b_status = (case vd ''status'' of Some (StatusV s) \<Rightarrow> s | _ \<Rightarrow> PENDING),
                         b_listing = l_pk l\<rparr>
                in Inr (b, db\<lparr>Booking_objects := Booking_objects db @ [b]\<rparr>))
           | Some _ \<Rightarrow> Inl ValueError
           | None \<Rightarrow> Inl IntegrityError)
      | Some _ \<Rightarrow> Inl ValueError
      | None \<Rightarrow> Inl IntegrityError)"

definition Review_objects_create ::
  "database \<Rightarrow> (string \<rightharpoonup> val) \<Rightarrow> exn + (review \<times> database)" where
  "Review_objects_create db vd =
     (case vd ''author'' of
        Some (UserV (User n)) \<Rightarrow>
          (case vd ''listing'' of
             Some (ListingV l) \<Rightarrow>
               (let r = \<lparr>r_pk = fresh_pk (map r_pk (Review_objects db)),
                         r_author = n,
                         r_listing = l_pk l\<rparr>
                in Inr (r, db\<lparr>Review_objects := Review_objects db @ [r]\<rparr>))
           | Some _ \<Rightarrow> Inl ValueError
           | None \<Rightarrow> Inl IntegrityError)
      | Some _ \<Rightarrow> Inl ValueError
      | None \<Rightarrow> Inl IntegrityError)"

definition Booking_save :: "database \<Rightarrow> booking \<Rightarrow> database" where
  \<comment> \<open>\<^verbatim>\<open>instance.save()\<close>: the row of the instance's key is written, or added when new\<close>
  "Booking_save db b =
     (if list_ex (\<lambda>x. b_pk x = b_pk b) (Booking_objects db)
      then db\<lparr>Booking_objects := map (\<lambda>x. if b_pk x = b_pk b then b else x) (Booking_objects db)\<rparr>
      else db\<lparr>Booking_objects := Booking_objects db @ [b]\<rparr>)"

definition Booking_delete :: "database \<Rightarrow> booking \<Rightarrow> database" where
  "Booking_delete db b =
     db\<lparr>Booking_objects := filter (\<lambda>x. \<not> b_pk x = b_pk b) (Booking_objects db)\<rparr>"

definition Serializer_save ::
  "(database \<Rightarrow> (string \<rightharpoonup> val) \<Rightarrow> exn + ('a \<times> database)) \<Rightarrow> database \<Rightarrow>
   (string \<rightharpoonup> val) \<Rightarrow> (string \<rightharpoonup> val) \<Rightarrow> exn + ('a \<times> database)" where
  \<comment> \<open>\<^verbatim>\<open>serializer.save(**kwargs)\<close> of a new instance:
      \<^verbatim>\<open>self.create({**self.validated_data, **kwargs})\<close>\<close>
  "Serializer_save create db validated_data kwargs = create db (validated_data ++ kwargs)"

section \<open>ListingViewset: object lookup and creation\<close>

definition ListingViewset_get_object :: "env \<Rightarrow> database \<Rightarrow> view \<Rightarrow> exn + listing" where
  "ListingViewset_get_object e db v =
     get_object e (ListingViewset_attrs @ GenericAPIView_attrs e)
       (ListingViewset_get_permissions e v) v
       (Inr (Listing_objects db)) (Listing_filter e) ListingObj"

definition ListingViewset_perform_create ::
  "database \<Rightarrow> view \<Rightarrow> (string \<rightharpoonup> val) \<Rightarrow> exn + (listing \<times> database)" where
  "ListingViewset_perform_create db v validated_data =
     Serializer_save Listing_objects_create db validated_data
       [''owner'' \<mapsto> UserV (v_user v)]"

section \<open>BookingViewset\<close>

definition BookingViewset_get_permissions :: "env \<Rightarrow> exn + permission list" where
  "BookingViewset_get_permissions e =
     APIView_get_permissions (BookingViewset_attrs @ GenericAPIView_attrs e)"

definition BookingViewset_get_queryset :: "database \<Rightarrow> view \<Rightarrow> exn + booking list" where
  \<comment> \<open>\<^verbatim>\<open>Booking.objects.filter(guest=self.request.user)\<close>; the anonymous user is no key value\<close>
  "BookingViewset_get_queryset db v =
     (case v_user v of
        AnonymousUser \<Rightarrow> Inl TypeError
      | User p \<Rightarrow> Inr (filter (\<lambda>b. b_guest b = p) (Booking_objects db)))"

definition BookingViewset_get_object :: "env \<Rightarrow> database \<Rightarrow> view \<Rightarrow> exn + booking" where
  "BookingViewset_get_object e db v =
     get_object e (BookingViewset_attrs @ GenericAPIView_attrs e)
       (BookingViewset_get_permissions e) v
       (BookingViewset_get_queryset db v) (Booking_filter e) BookingObj"

definition BookingViewset_perform_create ::
  "database \<Rightarrow> view \<Rightarrow> (string \<rightharpoonup> val) \<Rightarrow> exn + (booking \<times> database)" where
  "BookingViewset_perform_create db v validated_data =
     Serializer_save Booking_objects_create db validated_data
       [''guest'' \<mapsto> UserV (v_user v)]"

definition BookingViewset_cancel :: "env \<Rightarrow> database \<Rightarrow> view \<Rightarrow> (exn + response) \<times> database" where
  "BookingViewset_cancel e db v =
     (case BookingViewset_get_object e db v of
        Inl x \<Rightarrow> (Inl x, db)
      | Inr booking \<Rightarrow>
          if b_status booking = CONFIRMED
          then
            (let compared = (b_status booking = CANCELLED);
                 db' = Booking_save db booking
             in (and_then (status_attr ''HTTP_200_OK'')
                   (\<lambda>c. Inr (Response (Dict [(''status'', ''Booking cancelled'')]) c)), db'))
          else
            (and_then (status_attr ''HTT_400_BAD_REQUEST'')
               (\<lambda>c. Inr (Response (Dict [(''error'', ''Booking cannot be cancelled'')]) c)), db))"

text \<open>The handlers \<^verbatim>\<open>ModelViewSet\<close> supplies, with the view's queryset and object lookup.\<close>

definition BookingViewset_list :: "database \<Rightarrow> view \<Rightarrow> (exn + response) \<times> database" where
  "BookingViewset_list db v =
     (and_then (BookingViewset_get_queryset db v) (\<lambda>qs. Inr (Response (Bookings qs) 200)), db)"

definition BookingViewset_retrieve :: "env \<Rightarrow> database \<Rightarrow> view \<Rightarrow> (exn + response) \<times> database" where
  "BookingViewset_retrieve e db v =
     (and_then (BookingViewset_get_object e db v) (\<lambda>b. Inr (Response (BookingData b) 200)), db)"

definition BookingViewset_update :: "env \<Rightarrow> database \<Rightarrow> view \<Rightarrow> (exn + response) \<times> database" where
  "BookingViewset_update e db v =
     (case and_then (BookingViewset_get_object e db v)
             (\<lambda>b. BookingSerializer_update e b (v_data v)) of
        Inl x \<Rightarrow> (Inl x, db)
      | Inr b' \<Rightarrow> (Inr (Response (BookingData b') 200), Booking_save db b'))"

definition BookingViewset_destroy :: "env \<Rightarrow> database \<Rightarrow> view \<Rightarrow> (exn + response) \<times> database" where
  "BookingViewset_destroy e db v =
     (case BookingViewset_get_object e db v of
        Inl x \<Rightarrow> (Inl x, db)
      | Inr b \<Rightarrow> (Inr (Response NoContent 204), Booking_delete db b))"

definition BookingViewset_create :: "env \<Rightarrow> database \<Rightarrow> view \<Rightarrow> (exn + response) \<times> database" where
  "BookingViewset_create e db v =
     (case and_then (BookingSerializer_is_valid e (v_data v))
             (\<lambda>vd. BookingViewset_perform_create db v vd) of
        Inl x \<Rightarrow> (Inl x, db)
      | Inr (b, db') \<Rightarrow> (Inr (Response (BookingData b) 201), db'))"

definition BookingViewset_dispatch :: "env \<Rightarrow> database \<Rightarrow> view \<Rightarrow> (exn + response) \<times> database" where
  "BookingViewset_dispatch e db v =
     (case initial (BookingViewset_get_permissions e) v of
        Inl x \<Rightarrow> (Inl x, db)
      | Inr u \<Rightarrow>
          if v_action v = ''list'' then BookingViewset_list db v
          else if v_action v = ''create'' then BookingViewset_create e db v
          else if v_action v = ''retrieve'' then BookingViewset_retrieve e db v
          else if v_action v \<in> set [''update'', ''partial_update''] then BookingViewset_update e db v
          else if v_action v = ''destroy'' then BookingViewset_destroy e db v
          else if v_action v = ''cancel'' then BookingViewset_cancel e db v
          else (Inl MethodNotAllowed, db))"

section \<open>ReviewViewSet and the nested router\<close>

definition ReviewViewSet_get_permissions :: "env \<Rightarrow> exn + permission list" where
  "ReviewViewSet_get_permissions e =
     APIView_get_permissions (ReviewViewSet_attrs @ GenericAPIView_attrs e)"

definition ReviewViewSet_get_queryset :: "database \<Rightarrow> view \<Rightarrow> exn + review list" where
  \<comment> \<open>\<^verbatim>\<open>Review.objects.filter(listing__slug=self.kwargs['listing_slug'])\<close>\<close>
  "ReviewViewSet_get_queryset db v =
     and_then (subscript (v_kwargs v) ''listing_slug'')
       (\<lambda>s. Inr (filter
                  (\<lambda>r. list_ex (\<lambda>l. l_pk l = r_listing r \<and> l_slug l = s) (Listing_objects db))
                  (Review_objects db)))"

definition ReviewViewSet_perform_create ::
  "database \<Rightarrow> view \<Rightarrow> (string \<rightharpoonup> val) \<Rightarrow> exn + (review \<times> database)" where
  "ReviewViewSet_perform_create db v validated_data =
     and_then (subscript (v_kwargs v) ''listing<-slug'') (\<lambda>s.
     and_then (Listing_objects_get_slug db s) (\<lambda>listing.
       Serializer_save Review_objects_create db validated_data
         [''author'' \<mapsto> UserV (v_user v), ''listing'' \<mapsto> ListingV listing]))"

text \<open>
  \<^verbatim>\<open>urls.py\<close> nests the reviews under the listings with
  \<^verbatim>\<open>NestedSimpleRouter(router, r'listings', lookup='listing')\<close>. The nested router names the
  parent's URL keyword argument by the framework router's \<^verbatim>\<open>get_lookup_regex(viewset,
  lookup_prefix)\<close>: the prefix (\<^verbatim>\<open>lookup + '_'\<close>) followed by the parent viewset's
  \<^verbatim>\<open>lookup_url_kwarg or lookup_field\<close>.
\<close>

definition get_lookup_regex :: "namespace \<Rightarrow> string \<Rightarrow> exn + string" where
  \<comment> \<open>the name of the group that the URL pattern binds\<close>
  "get_lookup_regex viewset lookup_prefix =
     and_then (lookup_url_kwarg viewset) (\<lambda>kw. Inr (lookup_prefix @ kw))"

definition listings_router_nest_prefix :: string where
  "listings_router_nest_prefix = ''listing'' @ ''_''"

definition listings_router_kwargs :: "env \<Rightarrow> string \<Rightarrow> string option \<Rightarrow> exn + (string \<rightharpoonup> string)" where
  \<comment> \<open>the keyword arguments of a request to \<^verbatim>\<open>/listings/<segment>/reviews/\<close> (no review id)
      or \<^verbatim>\<open>/listings/<segment>/reviews/<id>/\<close>\<close>
  "listings_router_kwargs e segment review_id =
     and_then (get_lookup_regex (ListingViewset_attrs @ GenericAPIView_attrs e)
                 listings_router_nest_prefix) (\<lambda>parent.
     and_then (get_lookup_regex (ReviewViewSet_attrs @ GenericAPIView_attrs e) []) (\<lambda>own.
       Inr (case review_id of
              None \<Rightarrow> [parent \<mapsto> segment]
            | Some i \<Rightarrow> [parent \<mapsto> segment, own \<mapsto> i])))"

section \<open>A concrete deployment\<close>

text \<open>
  Concrete inputs for the closed statements below: the framework's own default permission
  classes (\<^verbatim>\<open>AllowAny\<close>), three key values, one listing owned by user 1 with bookings of
  users 1 and 2 and a review by user 2.
\<close>

definition example_env :: env where
  "example_env =
     \<lparr>DEFAULT_PERMISSION_CLASSES = [AllowAny],
      to_pk = map_of [(''1'', 1), (''2'', 2), (''3'', 3)],
      is_owner = (\<lambda>u ob. case ob of
                     ListingObj l \<Rightarrow> u = User (l_owner l)
                   | BookingObj b \<Rightarrow> u = User (b_guest b)
                   | ReviewObj r \<Rightarrow> u = User (r_author r)),
      BookingSerializer_is_valid = (\<lambda>d. Inr d),
      BookingSerializer_update =
        (\<lambda>b d. Inr (case d ''status'' of Some (StatusV s) \<Rightarrow> b\<lparr>b_status := s\<rparr> | _ \<Rightarrow> b))\<rparr>"

definition villa :: listing where
  "villa = \<lparr>l_pk = 1, l_slug = ''villa-1'', l_owner = 1\<rparr>"

definition example_db :: database where
  "example_db =
     \<lparr>Listing_objects = [villa],
      Booking_objects =
        [\<lparr>b_pk = 1, b_guest = 1, b_status = CONFIRMED, b_listing = 1\<rparr>,
         \<lparr>b_pk = 2, b_guest = 2, b_status = PENDING, b_listing = 1\<rparr>,
         \<lparr>b_pk = 3, b_guest = 1, b_status = CANCELLED, b_listing = 1\<rparr>],
      Review_objects = [\<lparr>r_pk = 1, r_author = 2, r_listing = 1\<rparr>]\<rparr>"

definition example_request ::
  "string \<Rightarrow> http_method \<Rightarrow> user \<Rightarrow> (string \<times> string) list \<Rightarrow> view" where
  "example_request a m u kw =
     \<lparr>v_action = a, v_method = m, v_user = u, v_data = Map.empty, v_kwargs = map_of kw\<rparr>"

section \<open>Properties\<close>

subsection \<open>What the framework reads from the classes\<close>

lemma ListingViewset_permissions_are_default:
  "ListingViewset_get_permissions e v = Inr (DEFAULT_PERMISSION_CLASSES e)"
  by (simp add: ListingViewset_get_permissions_def APIView_get_permissions_def getattr_def
      and_then_def ListingViewset_attrs_def GenericAPIView_attrs_def)

lemma BookingViewset_permissions:
  "BookingViewset_get_permissions e = Inr [IsAuthenticated, IsOwnerOrReadOnly]"
  by (simp add: BookingViewset_get_permissions_def APIView_get_permissions_def getattr_def
      and_then_def BookingViewset_attrs_def)

lemma ReviewViewSet_permissions:
  "ReviewViewSet_get_permissions e = Inr (DEFAULT_PERMISSION_CLASSES e)"
  by (simp add: ReviewViewSet_get_permissions_def APIView_get_permissions_def getattr_def
      and_then_def ReviewViewSet_attrs_def GenericAPIView_attrs_def)

lemma Booking_lookup_field:
  "lookup_field (BookingViewset_attrs @ GenericAPIView_attrs e) = Inr ''pk''"
  by (simp add: lookup_field_def getattr_def and_then_def BookingViewset_attrs_def
      GenericAPIView_attrs_def)

lemma Booking_lookup_url_kwarg:
  "lookup_url_kwarg (BookingViewset_attrs @ GenericAPIView_attrs e) = Inr ''pk''"
  by (simp add: lookup_url_kwarg_def lookup_field_def getattr_def and_then_def BookingViewset_attrs_def
      GenericAPIView_attrs_def)

lemma Listing_lookup_field:
  "lookup_field (ListingViewset_attrs @ GenericAPIView_attrs e) = Inr ''pk''"
  by (simp add: lookup_field_def getattr_def and_then_def ListingViewset_attrs_def
      GenericAPIView_attrs_def)

lemma Listing_lookup_url_kwarg:
  "lookup_url_kwarg (ListingViewset_attrs @ GenericAPIView_attrs e) = Inr ''pk''"
  by (simp add: lookup_url_kwarg_def lookup_field_def getattr_def and_then_def ListingViewset_attrs_def
      GenericAPIView_attrs_def)

lemma Review_lookup_url_kwarg:
  "lookup_url_kwarg (ReviewViewSet_attrs @ GenericAPIView_attrs e) = Inr ''pk''"
  by (simp add: lookup_url_kwarg_def lookup_field_def getattr_def and_then_def ReviewViewSet_attrs_def
      GenericAPIView_attrs_def)

lemma listings_router_kwargs_eq:
  "listings_router_kwargs e seg rid =
     Inr (case rid of None \<Rightarrow> [''listing_pk'' \<mapsto> seg]
          | Some i \<Rightarrow> [''listing_pk'' \<mapsto> seg, ''pk'' \<mapsto> i])"
  by (simp add: listings_router_kwargs_def get_lookup_regex_def Listing_lookup_url_kwarg
      Review_lookup_url_kwarg and_then_def listings_router_nest_prefix_def)

lemma BookingViewset_get_object_eq:
  "BookingViewset_get_object e db v =
     and_then (BookingViewset_get_queryset db v) (\<lambda>qs.
       case v_kwargs v ''pk'' of
         None \<Rightarrow> Inl AssertionError
       | Some x \<Rightarrow>
           and_then (get_object_or_404 (Booking_filter e ''pk'' x qs)) (\<lambda>a.
           and_then (check_object_permissions e [IsAuthenticated, IsOwnerOrReadOnly] v (BookingObj a))
             (\<lambda>u. Inr a)))"
  by (simp add: BookingViewset_get_object_def get_object_def Booking_lookup_field
      Booking_lookup_url_kwarg BookingViewset_permissions and_then_def subscript_def
      split: sum.splits option.splits)


lemma get_object_or_404_Inr: "get_object_or_404 m = Inr a \<longleftrightarrow> m = Inr [a]"
proof (cases m)
  case (Inl x)
  then show ?thesis by (cases x) simp_all
next
  case (Inr xs)
  show ?thesis
  proof (cases xs)
    case Nil
    with Inr show ?thesis by simp
  next
    case (Cons y ys)
    with Inr show ?thesis by (cases ys) simp_all
  qed
qed

lemma BookingViewset_initial:
  "initial (BookingViewset_get_permissions e) v =
     (if is_authenticated (v_user v) then Inr () else Inl NotAuthenticated)"
  by (simp add: initial_def BookingViewset_permissions and_then_def check_permissions_def
      permission_denied_def)

lemma BookingViewset_get_object_Inr:
  assumes "BookingViewset_get_object e db v = Inr b"
  shows "\<exists>p x. v_user v = User p \<and> v_kwargs v ''pk'' = Some x \<and> to_pk e x = Some (b_pk b)
           \<and> filter (\<lambda>c. b_pk c = b_pk b) (filter (\<lambda>c. b_guest c = p) (Booking_objects db)) = [b]"
proof -
  from assms obtain p where p: "v_user v = User p"
    by (cases "v_user v")
      (simp_all add: BookingViewset_get_object_eq BookingViewset_get_queryset_def and_then_def)
  from assms p obtain x where x: "v_kwargs v ''pk'' = Some x"
    by (cases "v_kwargs v ''pk''")
      (simp_all add: BookingViewset_get_object_eq BookingViewset_get_queryset_def and_then_def)
  let ?qs = "filter (\<lambda>c. b_guest c = p) (Booking_objects db)"
  from assms p x have "get_object_or_404 (Booking_filter e ''pk'' x ?qs) = Inr b"
    by (simp add: BookingViewset_get_object_eq BookingViewset_get_queryset_def and_then_def
        split: sum.splits if_splits)
  then have f: "Booking_filter e ''pk'' x ?qs = Inr [b]"
    by (simp add: get_object_or_404_Inr)
  then obtain k where k: "to_pk e x = Some k" and fk: "filter (\<lambda>c. b_pk c = k) ?qs = [b]"
    by (cases "to_pk e x") (simp_all add: Booking_filter_def)
  from fk have "b \<in> set (filter (\<lambda>c. b_pk c = k) ?qs)" by simp
  then have "b_pk b = k" by simp
  with p x k fk show ?thesis by simp
qed

lemma BookingViewset_get_object_guest:
  assumes "BookingViewset_get_object e db v = Inr b"
  shows "b \<in> set (Booking_objects db) \<and> v_user v = User (b_guest b)"
proof -
  from BookingViewset_get_object_Inr [OF assms] obtain p x where
    p: "v_user v = User p" and
    f: "filter (\<lambda>c. b_pk c = b_pk b) (filter (\<lambda>c. b_guest c = p) (Booking_objects db)) = [b]"
    by blast
  from f have "b \<in> set (filter (\<lambda>c. b_pk c = b_pk b) (filter (\<lambda>c. b_guest c = p) (Booking_objects db)))"
    by simp
  with p show ?thesis by simp
qed

lemma pk_unique:
  assumes "distinct (map b_pk bs)" and "a \<in> set bs" and "b \<in> set bs" and "b_pk a = b_pk b"
  shows "a = b"
  using assms by (meson distinct_map inj_onD)

lemma BookingViewset_get_object_not_found:
  assumes "v_user v = User p" and "v_kwargs v ''pk'' = Some x" and "to_pk e x = Some (b_pk other)"
    and "other \<in> set (Booking_objects db)" and "b_guest other \<noteq> p"
    and "distinct (map b_pk (Booking_objects db))"
  shows "BookingViewset_get_object e db v = Inl Http404"
proof -
  have "filter (\<lambda>c. b_pk c = b_pk other) (filter (\<lambda>c. b_guest c = p) (Booking_objects db)) = []"
  proof (rule ccontr)
    assume "\<not> ?thesis"
    then obtain c where "c \<in> set (Booking_objects db)" and "b_guest c = p" and "b_pk c = b_pk other"
      by (auto simp: filter_empty_conv)
    with assms(4,6) have "c = other" by (auto dest: pk_unique)
    with \<open>b_guest c = p\<close> assms(5) show False by simp
  qed
  with assms(1-3) show ?thesis
    by (simp add: BookingViewset_get_object_eq BookingViewset_get_queryset_def and_then_def
        Booking_filter_def)
qed

lemma Booking_save_same:
  assumes "distinct (map b_pk (Booking_objects db))" and "b \<in> set (Booking_objects db)"
  shows "Booking_save db b = db"
proof -
  have "list_ex (\<lambda>x. b_pk x = b_pk b) (Booking_objects db)"
    using assms(2) by (auto simp: list_ex_iff)
  moreover have "map (\<lambda>x. if b_pk x = b_pk b then b else x) (Booking_objects db) = Booking_objects db"
    using assms by (intro map_idI) (auto dest: pk_unique)
  ultimately show ?thesis by (simp add: Booking_save_def)
qed

lemma status_200: "status_attr ''HTTP_200_OK'' = Inr 200"
  by (simp add: status_attr_def status_module_def)

lemma status_HTT: "status_attr ''HTT_400_BAD_REQUEST'' = Inl (AttributeError ''HTT_400_BAD_REQUEST'')"
  by (simp add: status_attr_def status_module_def)

lemma BookingViewset_cancel_confirmed:
  assumes "BookingViewset_get_object e db v = Inr b" and "b_status b = CONFIRMED"
  shows "BookingViewset_cancel e db v =
           (Inr (Response (Dict [(''status'', ''Booking cancelled'')]) 200), Booking_save db b)"
  using assms by (simp add: BookingViewset_cancel_def status_200 and_then_def)

lemma BookingViewset_cancel_other:
  assumes "BookingViewset_get_object e db v = Inr b" and "b_status b \<noteq> CONFIRMED"
  shows "BookingViewset_cancel e db v = (Inl (AttributeError ''HTT_400_BAD_REQUEST''), db)"
  using assms by (simp add: BookingViewset_cancel_def status_HTT and_then_def)

lemma BookingViewset_dispatch_cancel:
  assumes "v_action v = ''cancel''" and "is_authenticated (v_user v)"
  shows "BookingViewset_dispatch e db v = BookingViewset_cancel e db v"
  using assms by (simp add: BookingViewset_dispatch_def BookingViewset_initial)


text \<open>
  Claim C1: cancelling a booking whose status is CONFIRMED sets the status to CANCELLED,
  persists it and answers 200 with a confirmation. The handler compares the status with
  CANCELLED where it means to assign it: for every CONFIRMED booking that the requester can
  reach, in a table with unique keys, the answer is 200 with the confirmation, and the
  database after the call is the database before it, the booking still CONFIRMED.
\<close>

theorem cancel_confirmed_keeps_status:
  assumes "v_action v = ''cancel''"
    and "BookingViewset_get_object e db v = Inr b"
    and "b_status b = CONFIRMED"
    and "distinct (map b_pk (Booking_objects db))"
  shows "BookingViewset_dispatch e db v =
           (Inr (Response (Dict [(''status'', ''Booking cancelled'')]) 200), db)
         \<and> b \<in> set (Booking_objects db)"
proof -
  from BookingViewset_get_object_guest [OF assms(2)]
  have mem: "b \<in> set (Booking_objects db)" and auth: "is_authenticated (v_user v)"
    by simp_all
  from assms(4) mem have "Booking_save db b = db" by (rule Booking_save_same)
  with assms(1-3) auth mem show ?thesis
    by (simp add: BookingViewset_dispatch_cancel BookingViewset_cancel_confirmed)
qed

theorem cancel_confirmed_keeps_status_witness:
  "BookingViewset_dispatch example_env example_db
     (example_request ''cancel'' POST (User 1) [(''pk'', ''1'')]) =
     (Inr (Response (Dict [(''status'', ''Booking cancelled'')]) 200), example_db)
   \<and> \<lparr>b_pk = 1, b_guest = 1, b_status = CONFIRMED, b_listing = 1\<rparr> \<in> set (Booking_objects example_db)"
  using cancel_confirmed_keeps_status [of "example_request ''cancel'' POST (User 1) [(''pk'', ''1'')]"
      example_env example_db "\<lparr>b_pk = 1, b_guest = 1, b_status = CONFIRMED, b_listing = 1\<rparr>"]
  by (simp add: BookingViewset_get_object_eq BookingViewset_get_queryset_def and_then_def
      Booking_filter_def check_object_permissions_def example_env_def example_db_def
      example_request_def SAFE_METHODS_def)

text \<open>
  Claim C2: cancelling a booking whose status is not CONFIRMED answers 400 with the error
  payload and leaves the status unchanged. The handler reads \<^verbatim>\<open>status.HTT_400_BAD_REQUEST\<close>,
  a name the status module does not bind: for every such booking that the requester can reach
  the call ends in \<^verbatim>\<open>AttributeError\<close>, no response is built, and the database is unchanged.
\<close>

theorem cancel_unconfirmed_raises:
  assumes "v_action v = ''cancel''"
    and "BookingViewset_get_object e db v = Inr b"
    and "b_status b \<noteq> CONFIRMED"
  shows "BookingViewset_dispatch e db v = (Inl (AttributeError ''HTT_400_BAD_REQUEST''), db)"
proof -
  from BookingViewset_get_object_guest [OF assms(2)]
  have "is_authenticated (v_user v)" by simp
  with assms show ?thesis
    by (simp add: BookingViewset_dispatch_cancel BookingViewset_cancel_other)
qed

theorem cancel_unconfirmed_raises_witness:
  "BookingViewset_dispatch example_env example_db
     (example_request ''cancel'' POST (User 2) [(''pk'', ''2'')]) =
     (Inl (AttributeError ''HTT_400_BAD_REQUEST''), example_db)"
  using cancel_unconfirmed_raises [of "example_request ''cancel'' POST (User 2) [(''pk'', ''2'')]"
      example_env example_db "\<lparr>b_pk = 2, b_guest = 2, b_status = PENDING, b_listing = 1\<rparr>"]
  by (simp add: BookingViewset_get_object_eq BookingViewset_get_queryset_def and_then_def
      Booking_filter_def check_object_permissions_def example_env_def example_db_def
      example_request_def SAFE_METHODS_def)


lemma BookingViewset_detail_not_found:
  assumes "v_action v \<in> set [''retrieve'', ''update'', ''partial_update'', ''destroy'', ''cancel'']"
    and "is_authenticated (v_user v)"
    and "BookingViewset_get_object e db v = Inl x"
  shows "BookingViewset_dispatch e db v = (Inl x, db)"
  using assms
  by (auto simp: BookingViewset_dispatch_def BookingViewset_initial BookingViewset_retrieve_def
      BookingViewset_update_def BookingViewset_destroy_def BookingViewset_cancel_def and_then_def)

lemma Booking_save_keeps_others:
  assumes "c \<in> set (Booking_objects db)" and "b_pk c \<noteq> b_pk b"
  shows "c \<in> set (Booking_objects (Booking_save db b))"
proof -
  from assms have "c \<in> (\<lambda>x. if b_pk x = b_pk b then b else x) ` set (Booking_objects db)"
    by (intro image_eqI [where x = c]) simp_all
  with assms(1) show ?thesis by (simp add: Booking_save_def)
qed

lemma Booking_delete_keeps_others:
  assumes "c \<in> set (Booking_objects db)" and "b_pk c \<noteq> b_pk b"
  shows "c \<in> set (Booking_objects (Booking_delete db b))"
  using assms by (simp add: Booking_delete_def)

lemma BookingViewset_dispatch_frame:
  assumes act: "v_action v \<in> set [''list'', ''retrieve'', ''update'', ''partial_update'', ''destroy'', ''cancel'']"
    and user: "v_user v = User p"
    and other: "other \<in> set (Booking_objects db)" "b_guest other \<noteq> p"
    and dist: "distinct (map b_pk (Booking_objects db))"
    and upd: "\<forall>b d b'. BookingSerializer_update e b d = Inr b' \<longrightarrow> b_pk b' = b_pk b"
  shows "other \<in> set (Booking_objects (snd (BookingViewset_dispatch e db v)))"
proof (cases "BookingViewset_get_object e db v")
  case (Inl x)
  with act user other(1) show ?thesis
    by (auto simp: BookingViewset_dispatch_def BookingViewset_initial BookingViewset_retrieve_def
        BookingViewset_update_def BookingViewset_destroy_def BookingViewset_cancel_def
        BookingViewset_list_def and_then_def)
next
  case (Inr b)
  from BookingViewset_get_object_guest [OF Inr] user
  have mem: "b \<in> set (Booking_objects db)" and guest: "b_guest b = p" by simp_all
  from guest other(2) have "other \<noteq> b" by auto
  with dist mem other(1) have pk: "b_pk other \<noteq> b_pk b" by (auto dest: pk_unique)
  have save: "other \<in> set (Booking_objects (Booking_save db b'))" if "b_pk b' = b_pk b" for b'
    using other(1) pk that by (intro Booking_save_keeps_others) simp_all
  have del: "other \<in> set (Booking_objects (Booking_delete db b))"
    using other(1) pk by (rule Booking_delete_keeps_others)
  have upd': "other \<in> set (Booking_objects (snd (BookingViewset_update e db v)))"
    using Inr other(1) upd save
    by (auto simp: BookingViewset_update_def and_then_def split: sum.splits)
  have can: "other \<in> set (Booking_objects (snd (BookingViewset_cancel e db v)))"
    using Inr other(1) save [of b]
    by (auto simp: BookingViewset_cancel_def and_then_def Let_def)
  from act user Inr other(1) del upd' can show ?thesis
    by (auto simp: BookingViewset_dispatch_def BookingViewset_initial BookingViewset_retrieve_def
        BookingViewset_destroy_def BookingViewset_list_def and_then_def)
qed

text \<open>
  Claim C3: for an authenticated principal \<open>p\<close>, the booking operations see and affect only
  bookings whose guest is \<open>p\<close>, and another principal's booking is not found. The list
  answers exactly the bookings of \<open>p\<close>; every object the lookup hands to retrieve, update,
  destroy or cancel is a stored booking of \<open>p\<close>; addressing the key of another guest's
  booking ends in \<^verbatim>\<open>Http404\<close> (not \<^verbatim>\<open>PermissionDenied\<close>) with the database unchanged; and
  after any of these operations every booking of another guest is still stored as it was
  (for update: when the serializer leaves the primary key alone). Keys are unique.
\<close>

theorem booking_operations_scoped_to_guest:
  assumes "v_user v = User p"
  shows "(v_action v = ''list'' \<longrightarrow>
            BookingViewset_dispatch e db v =
              (Inr (Response (Bookings (filter (\<lambda>b. b_guest b = p) (Booking_objects db))) 200), db))
       \<and> (\<forall>b. BookingViewset_get_object e db v = Inr b \<longrightarrow>
            b \<in> set (Booking_objects db) \<and> b_guest b = p)
       \<and> (v_action v \<in> set [''retrieve'', ''update'', ''partial_update'', ''destroy'', ''cancel'']
            \<and> v_kwargs v ''pk'' = Some x \<and> to_pk e x = Some (b_pk other)
            \<and> other \<in> set (Booking_objects db) \<and> b_guest other \<noteq> p
            \<and> distinct (map b_pk (Booking_objects db))
          \<longrightarrow> BookingViewset_dispatch e db v = (Inl Http404, db))
       \<and> (v_action v \<in> set [''list'', ''retrieve'', ''update'', ''partial_update'', ''destroy'', ''cancel'']
            \<and> other \<in> set (Booking_objects db) \<and> b_guest other \<noteq> p
            \<and> distinct (map b_pk (Booking_objects db))
            \<and> (\<forall>b d b'. BookingSerializer_update e b d = Inr b' \<longrightarrow> b_pk b' = b_pk b)
          \<longrightarrow> other \<in> set (Booking_objects (snd (BookingViewset_dispatch e db v))))"
proof (intro conjI impI allI)
  assume "v_action v = ''list''"
  with assms show "BookingViewset_dispatch e db v =
      (Inr (Response (Bookings (filter (\<lambda>b. b_guest b = p) (Booking_objects db))) 200), db)"
    by (simp add: BookingViewset_dispatch_def BookingViewset_initial BookingViewset_list_def
        BookingViewset_get_queryset_def and_then_def)
next
  fix b assume "BookingViewset_get_object e db v = Inr b"
  from BookingViewset_get_object_guest [OF this] assms
  show "b \<in> set (Booking_objects db)" and "b_guest b = p" by simp_all
next
  assume h: "v_action v \<in> set [''retrieve'', ''update'', ''partial_update'', ''destroy'', ''cancel'']
            \<and> v_kwargs v ''pk'' = Some x \<and> to_pk e x = Some (b_pk other)
            \<and> other \<in> set (Booking_objects db) \<and> b_guest other \<noteq> p
            \<and> distinct (map b_pk (Booking_objects db))"
  with assms have "BookingViewset_get_object e db v = Inl Http404"
    by (intro BookingViewset_get_object_not_found [where p = p and x = x and other = other]) simp_all
  with h assms show "BookingViewset_dispatch e db v = (Inl Http404, db)"
    by (intro BookingViewset_detail_not_found) simp_all
next
  assume h: "v_action v \<in> set [''list'', ''retrieve'', ''update'', ''partial_update'', ''destroy'', ''cancel'']
            \<and> other \<in> set (Booking_objects db) \<and> b_guest other \<noteq> p
            \<and> distinct (map b_pk (Booking_objects db))
            \<and> (\<forall>b d b'. BookingSerializer_update e b d = Inr b' \<longrightarrow> b_pk b' = b_pk b)"
  with assms show "other \<in> set (Booking_objects (snd (BookingViewset_dispatch e db v)))"
    by (intro BookingViewset_dispatch_frame [where p = p]) simp_all
qed


theorem booking_operations_scoped_to_guest_witness:
  "BookingViewset_dispatch example_env example_db (example_request ''list'' GET (User 1) []) =
     (Inr (Response (Bookings [\<lparr>b_pk = 1, b_guest = 1, b_status = CONFIRMED, b_listing = 1\<rparr>,
                              \<lparr>b_pk = 3, b_guest = 1, b_status = CANCELLED, b_listing = 1\<rparr>]) 200),
      example_db)
   \<and> BookingViewset_dispatch example_env example_db
       (example_request ''retrieve'' GET (User 1) [(''pk'', ''2'')]) = (Inl Http404, example_db)
   \<and> \<lparr>b_pk = 2, b_guest = 2, b_status = PENDING, b_listing = 1\<rparr> \<in>
       set (Booking_objects (snd (BookingViewset_dispatch example_env example_db
         (example_request ''destroy'' DELETE (User 1) [(''pk'', ''1'')]))))"
proof -
  let ?bob = "\<lparr>b_pk = 2, b_guest = 2, b_status = PENDING, b_listing = 1\<rparr>"
  have upd: "\<forall>b d b'. BookingSerializer_update example_env b d = Inr b' \<longrightarrow> b_pk b' = b_pk b"
    by (auto simp: example_env_def split: option.splits val.splits)
  have mem: "?bob \<in> set (Booking_objects example_db)"
    and dist: "distinct (map b_pk (Booking_objects example_db))"
    and pk: "to_pk example_env ''2'' = Some (b_pk ?bob)"
    by (simp_all add: example_db_def example_env_def)
  from booking_operations_scoped_to_guest
    [where v = "example_request ''list'' GET (User 1) []" and p = 1 and e = example_env
      and db = example_db]
  have 1: "BookingViewset_dispatch example_env example_db (example_request ''list'' GET (User 1) []) =
     (Inr (Response (Bookings [\<lparr>b_pk = 1, b_guest = 1, b_status = CONFIRMED, b_listing = 1\<rparr>,
                              \<lparr>b_pk = 3, b_guest = 1, b_status = CANCELLED, b_listing = 1\<rparr>]) 200),
      example_db)"
    by (simp add: example_request_def example_db_def)
  from booking_operations_scoped_to_guest
    [where v = "example_request ''retrieve'' GET (User 1) [(''pk'', ''2'')]" and p = 1
      and e = example_env and db = example_db and x = "''2''" and other = ?bob] mem dist pk
  have 2: "BookingViewset_dispatch example_env example_db
       (example_request ''retrieve'' GET (User 1) [(''pk'', ''2'')]) = (Inl Http404, example_db)"
    by (simp add: example_request_def)
  from booking_operations_scoped_to_guest
    [where v = "example_request ''destroy'' DELETE (User 1) [(''pk'', ''1'')]" and p = 1
      and e = example_env and db = example_db and other = ?bob] mem dist upd
  have 3: "?bob \<in> set (Booking_objects (snd (BookingViewset_dispatch example_env example_db
         (example_request ''destroy'' DELETE (User 1) [(''pk'', ''1'')]))))"
    by (simp add: example_request_def)
  from 1 2 3 show ?thesis by simp
qed

lemma Listing_objects_create_Inr:
  assumes "Listing_objects_create db vd = Inr (l, db')"
  shows "vd ''owner'' = Some (UserV (User (l_owner l))) \<and> Listing_objects db' = Listing_objects db @ [l]"
proof (cases "vd ''owner''")
  case None
  with assms show ?thesis by (simp add: Listing_objects_create_def)
next
  case (Some a)
  show ?thesis
  proof (cases a)
    case (UserV u)
    with Some assms show ?thesis
      by (cases u) (auto simp: Listing_objects_create_def Let_def)
  qed (use Some assms in \<open>simp_all add: Listing_objects_create_def\<close>)
qed

lemma Booking_objects_create_Inr:
  assumes "Booking_objects_create db vd = Inr (b, db')"
  shows "vd ''guest'' = Some (UserV (User (b_guest b))) \<and> Booking_objects db' = Booking_objects db @ [b]"
proof (cases "vd ''guest''")
  case None
  with assms show ?thesis by (simp add: Booking_objects_create_def)
next
  case (Some a)
  show ?thesis
  proof (cases a)
    case (UserV u)
    with Some assms show ?thesis
      by (cases u) (auto simp: Booking_objects_create_def Let_def split: option.splits val.splits)
  qed (use Some assms in \<open>simp_all add: Booking_objects_create_def\<close>)
qed

lemma BookingViewset_dispatch_create:
  assumes "v_action v = ''create''"
    and "BookingViewset_dispatch e db v = (Inr (Response (BookingData b) c), db')"
  shows "\<exists>vd. BookingSerializer_is_valid e (v_data v) = Inr vd
              \<and> BookingViewset_perform_create db v vd = Inr (b, db')"
proof -
  from assms have c: "BookingViewset_create e db v = (Inr (Response (BookingData b) c), db')"
    by (simp add: BookingViewset_dispatch_def split: sum.splits)
  then obtain vd where vd: "BookingSerializer_is_valid e (v_data v) = Inr vd"
    by (cases "BookingSerializer_is_valid e (v_data v)")
      (simp_all add: BookingViewset_create_def and_then_def)
  with c have "BookingViewset_perform_create db v vd = Inr (b, db')"
    by (cases "BookingViewset_perform_create db v vd")
      (auto simp: BookingViewset_create_def and_then_def)
  with vd show ?thesis by blast
qed

text \<open>
  Claim C4: a created listing's owner, and a created booking's guest, is the requesting
  principal, whatever owner or guest the request data holds: for \<^verbatim>\<open>perform_create\<close> on any
  validated data, and for a booking created through the view's \<^verbatim>\<open>create\<close> action with any
  request body and any serializer validation.
\<close>

theorem create_forces_requesting_principal:
  "(ListingViewset_perform_create db v vd = Inr (l, db') \<longrightarrow>
      v_user v = User (l_owner l) \<and> Listing_objects db' = Listing_objects db @ [l])
   \<and> (BookingViewset_perform_create db v vd = Inr (b, db'') \<longrightarrow>
      v_user v = User (b_guest b) \<and> Booking_objects db'' = Booking_objects db @ [b])
   \<and> (v_action v = ''create''
        \<and> BookingViewset_dispatch e db v = (Inr (Response (BookingData b) c), db'') \<longrightarrow>
      v_user v = User (b_guest b) \<and> Booking_objects db'' = Booking_objects db @ [b])"
proof (intro conjI impI)
  assume "ListingViewset_perform_create db v vd = Inr (l, db')"
  then have "Listing_objects_create db (vd ++ [''owner'' \<mapsto> UserV (v_user v)]) = Inr (l, db')"
    by (simp add: ListingViewset_perform_create_def Serializer_save_def)
  from Listing_objects_create_Inr [OF this]
  show "v_user v = User (l_owner l)" and "Listing_objects db' = Listing_objects db @ [l]"
    by simp_all
next
  assume "BookingViewset_perform_create db v vd = Inr (b, db'')"
  then have "Booking_objects_create db (vd ++ [''guest'' \<mapsto> UserV (v_user v)]) = Inr (b, db'')"
    by (simp add: BookingViewset_perform_create_def Serializer_save_def)
  from Booking_objects_create_Inr [OF this]
  show "v_user v = User (b_guest b)" and "Booking_objects db'' = Booking_objects db @ [b]"
    by simp_all
next
  assume "v_action v = ''create''
        \<and> BookingViewset_dispatch e db v = (Inr (Response (BookingData b) c), db'')"
  then obtain vd' where "BookingViewset_perform_create db v vd' = Inr (b, db'')"
    using BookingViewset_dispatch_create by blast
  then have "Booking_objects_create db (vd' ++ [''guest'' \<mapsto> UserV (v_user v)]) = Inr (b, db'')"
    by (simp add: BookingViewset_perform_create_def Serializer_save_def)
  from Booking_objects_create_Inr [OF this]
  show "v_user v = User (b_guest b)" and "Booking_objects db'' = Booking_objects db @ [b]"
    by simp_all
qed

theorem create_forces_requesting_principal_witness:
  "ListingViewset_perform_create example_db (example_request ''create'' POST (User 2) [])
     [''slug'' \<mapsto> StrV ''cabin'', ''owner'' \<mapsto> UserV (User 1)] =
     Inr (\<lparr>l_pk = 2, l_slug = ''cabin'', l_owner = 2\<rparr>,
          example_db\<lparr>Listing_objects := [villa, \<lparr>l_pk = 2, l_slug = ''cabin'', l_owner = 2\<rparr>]\<rparr>)
   \<and> v_user (example_request ''create'' POST (User 2) []) = User 2
   \<and> BookingViewset_perform_create example_db (example_request ''create'' POST (User 2) [])
     [''listing'' \<mapsto> ListingV villa, ''guest'' \<mapsto> UserV (User 1)] =
     Inr (\<lparr>b_pk = 4, b_guest = 2, b_status = PENDING, b_listing = 1\<rparr>,
          example_db\<lparr>Booking_objects := Booking_objects example_db @
            [\<lparr>b_pk = 4, b_guest = 2, b_status = PENDING, b_listing = 1\<rparr>]\<rparr>)
   \<and> BookingViewset_dispatch example_env example_db
       ((example_request ''create'' POST (User 2) [])
          \<lparr>v_data := [''listing'' \<mapsto> ListingV villa, ''guest'' \<mapsto> UserV (User 1)]\<rparr>) =
     (Inr (Response (BookingData \<lparr>b_pk = 4, b_guest = 2, b_status = PENDING, b_listing = 1\<rparr>) 201),
      example_db\<lparr>Booking_objects := Booking_objects example_db @
            [\<lparr>b_pk = 4, b_guest = 2, b_status = PENDING, b_listing = 1\<rparr>]\<rparr>)"
  using create_forces_requesting_principal
    [of example_db "example_request ''create'' POST (User 2) []"
      "[''slug'' \<mapsto> StrV ''cabin'', ''owner'' \<mapsto> UserV (User 1)]"
      "\<lparr>l_pk = 2, l_slug = ''cabin'', l_owner = 2\<rparr>"
      "example_db\<lparr>Listing_objects := [villa, \<lparr>l_pk = 2, l_slug = ''cabin'', l_owner = 2\<rparr>]\<rparr>"]
    create_forces_requesting_principal
    [of example_db "(example_request ''create'' POST (User 2) [])
          \<lparr>v_data := [''listing'' \<mapsto> ListingV villa, ''guest'' \<mapsto> UserV (User 1)]\<rparr>"
      "[''listing'' \<mapsto> ListingV villa, ''guest'' \<mapsto> UserV (User 1)]" _ _
      "\<lparr>b_pk = 4, b_guest = 2, b_status = PENDING, b_listing = 1\<rparr>"
      "example_db\<lparr>Booking_objects := Booking_objects example_db @
         [\<lparr>b_pk = 4, b_guest = 2, b_status = PENDING, b_listing = 1\<rparr>]\<rparr>" example_env 201]
  by (simp add: ListingViewset_perform_create_def BookingViewset_perform_create_def
      Serializer_save_def Listing_objects_create_def Booking_objects_create_def Let_def
      example_db_def example_request_def villa_def fresh_pk_def BookingViewset_dispatch_def
      BookingViewset_initial BookingViewset_create_def and_then_def example_env_def)

text \<open>
  Claim C5: on listings, list and retrieve are open to anyone, and create, update and delete
  need an authenticated owner. \<^verbatim>\<open>get_permissions\<close> stores its choice under
  \<^verbatim>\<open>permissions_classes\<close>, a name the framework never reads: for every action the classes in
  force are the settings' default. Under the framework's own default (\<^verbatim>\<open>AllowAny\<close>) an
  unauthenticated create passes the permission check, and a delete by user 2 reaches the
  listing of user 1 with the object check passed.
\<close>

theorem listing_write_unrestricted:
  "ListingViewset_get_permissions e v = Inr (DEFAULT_PERMISSION_CLASSES e)
   \<and> initial (ListingViewset_get_permissions example_env
               (example_request ''create'' POST AnonymousUser []))
       (example_request ''create'' POST AnonymousUser []) = Inr ()
   \<and> ListingViewset_get_object example_env example_db
       (example_request ''destroy'' DELETE (User 2) [(''pk'', ''1'')]) = Inr villa"
  by (simp add: ListingViewset_permissions_are_default initial_def and_then_def
      check_permissions_def check_object_permissions_def example_env_def ListingViewset_get_object_def
      get_object_def Listing_lookup_field Listing_lookup_url_kwarg subscript_def example_request_def
      Listing_filter_def example_db_def villa_def)

text \<open>
  Claim C6: retrieve uses \<^verbatim>\<open>ListingDetailSerializer\<close>, every other action
  \<^verbatim>\<open>ListingSerializer\<close>. The code compares the action with \<^verbatim>\<open>'retireve'\<close>: the action
  \<^verbatim>\<open>'retrieve'\<close> gets \<^verbatim>\<open>ListingSerializer\<close>, and the detail serializer is chosen for the
  misspelt name only.
\<close>

theorem retrieve_gets_summary_serializer:
  "ListingViewset_get_serializer_class (v\<lparr>v_action := ''retrieve''\<rparr>) = ListingSerializer
   \<and> (ListingViewset_get_serializer_class v = ListingDetailSerializer) = (v_action v = ''retireve'')"
  by (simp add: ListingViewset_get_serializer_class_def)

text \<open>
  Claim C7: a review created under \<^verbatim>\<open>/listings/{slug}/reviews/\<close> belongs to the listing of
  that slug and to the requesting principal. \<^verbatim>\<open>perform_create\<close> reads the keyword argument
  \<^verbatim>\<open>'listing<-slug'\<close>, which the router never supplies: on every request routed to the nested
  collection it ends in \<^verbatim>\<open>KeyError\<close>, whatever the database, the requester and the data, so
  no review is created.
\<close>

theorem review_create_raises_KeyError:
  "and_then (listings_router_kwargs e seg rid)
     (\<lambda>kw. ReviewViewSet_perform_create db (v\<lparr>v_kwargs := kw\<rparr>) vd) =
   Inl (KeyError ''listing<-slug'')"
  by (cases rid)
    (simp_all add: listings_router_kwargs_eq and_then_def ReviewViewSet_perform_create_def
      subscript_def)

lemma ReviewViewSet_get_queryset_by_slug:
  assumes "v_kwargs v ''listing_slug'' = Some s"
  shows "ReviewViewSet_get_queryset db v =
           Inr (filter (\<lambda>r. list_ex (\<lambda>l. l_pk l = r_listing r \<and> l_slug l = s) (Listing_objects db))
                  (Review_objects db))"
  using assms by (simp add: ReviewViewSet_get_queryset_def subscript_def and_then_def)

text \<open>
  Claim C8: list and retrieve on the nested collection see exactly the reviews of the listing
  whose slug is the path segment. \<^verbatim>\<open>get_queryset\<close> does filter so when it is given
  \<^verbatim>\<open>listing_slug\<close> (\<open>ReviewViewSet_get_queryset_by_slug\<close>), but the router as registered in
  \<^verbatim>\<open>urls.py\<close> binds the segment to \<^verbatim>\<open>listing_pk\<close>: the parent \<^verbatim>\<open>ListingViewset\<close> sets
  \<^verbatim>\<open>lookkup_field\<close>, so its lookup field is still \<^verbatim>\<open>pk\<close>. On every routed request
  \<^verbatim>\<open>get_queryset\<close> ends in \<^verbatim>\<open>KeyError\<close>.
\<close>

theorem review_queryset_raises_KeyError:
  "and_then (listings_router_kwargs e seg rid)
     (\<lambda>kw. ReviewViewSet_get_queryset db (v\<lparr>v_kwargs := kw\<rparr>)) =
   Inl (KeyError ''listing_slug'')"
  by (cases rid)
    (simp_all add: listings_router_kwargs_eq and_then_def ReviewViewSet_get_queryset_def
      subscript_def)

text \<open>
  Claim C9: on reviews, reads are open and writes need an authenticated owner. The class binds
  its list under \<^verbatim>\<open>permission_class\<close>, a name the framework never reads: the classes in
  force are the settings' default, and under the framework's own default (\<^verbatim>\<open>AllowAny\<close>) an
  unauthenticated create passes the permission check.
\<close>

theorem review_write_unrestricted:
  "ReviewViewSet_get_permissions e = Inr (DEFAULT_PERMISSION_CLASSES e)
   \<and> initial (ReviewViewSet_get_permissions example_env)
       (example_request ''create'' POST AnonymousUser [(''listing_pk'', ''1'')]) = Inr ()"
  by (simp add: ReviewViewSet_permissions initial_def and_then_def check_permissions_def
      example_env_def)

lemma ListingViewset_get_object_eq:
  "ListingViewset_get_object e db v =
     (case v_kwargs v ''pk'' of
        None \<Rightarrow> Inl AssertionError
      | Some x \<Rightarrow>
          and_then (get_object_or_404 (Listing_filter e ''pk'' x (Listing_objects db))) (\<lambda>a.
          and_then (check_object_permissions e (DEFAULT_PERMISSION_CLASSES e) v (ListingObj a))
            (\<lambda>u. Inr a)))"
  by (simp add: ListingViewset_get_object_def get_object_def Listing_lookup_field
      Listing_lookup_url_kwarg ListingViewset_permissions_are_default and_then_def subscript_def
      split: sum.splits option.splits)

text \<open>
  Claim C10: single listings are resolved by primary key, not by slug, because the class sets
  \<^verbatim>\<open>lookkup_field\<close>. The lookup field in force is \<^verbatim>\<open>pk\<close>; every listing the lookup returns
  is the stored one whose key the URL segment denotes; and a segment that denotes no key
  value (a slug, say) ends in \<^verbatim>\<open>Http404\<close>.
\<close>

theorem listing_resolved_by_pk:
  "lookup_field (ListingViewset_attrs @ GenericAPIView_attrs e) = Inr ''pk''
   \<and> (ListingViewset_get_object e db v = Inr l \<longrightarrow>
        l \<in> set (Listing_objects db)
        \<and> (\<exists>x. v_kwargs v ''pk'' = Some x \<and> to_pk e x = Some (l_pk l)))
   \<and> (v_kwargs v ''pk'' = Some x \<and> to_pk e x = None \<longrightarrow>
        ListingViewset_get_object e db v = Inl Http404)"
proof (intro conjI impI)
  show "lookup_field (ListingViewset_attrs @ GenericAPIView_attrs e) = Inr ''pk''"
    by (rule Listing_lookup_field)
next
  assume a: "ListingViewset_get_object e db v = Inr l"
  then obtain y where y: "v_kwargs v ''pk'' = Some y"
    by (cases "v_kwargs v ''pk''") (simp_all add: ListingViewset_get_object_eq)
  from a y have "get_object_or_404 (Listing_filter e ''pk'' y (Listing_objects db)) = Inr l"
    by (simp add: ListingViewset_get_object_eq and_then_def split: sum.splits if_splits)
  then have "Listing_filter e ''pk'' y (Listing_objects db) = Inr [l]"
    by (simp add: get_object_or_404_Inr)
  then obtain k where k: "to_pk e y = Some k" and f: "filter (\<lambda>c. l_pk c = k) (Listing_objects db) = [l]"
    by (cases "to_pk e y") (simp_all add: Listing_filter_def)
  from f have "l \<in> set (filter (\<lambda>c. l_pk c = k) (Listing_objects db))" by simp
  then have "l \<in> set (Listing_objects db)" and "l_pk l = k" by simp_all
  with y k show "l \<in> set (Listing_objects db)"
    and "\<exists>x. v_kwargs v ''pk'' = Some x \<and> to_pk e x = Some (l_pk l)" by simp_all
next
  assume "v_kwargs v ''pk'' = Some x \<and> to_pk e x = None"
  then show "ListingViewset_get_object e db v = Inl Http404"
    by (simp add: ListingViewset_get_object_eq Listing_filter_def and_then_def)
qed

theorem listing_resolved_by_pk_witness:
  "ListingViewset_get_object example_env example_db
     (example_request ''retrieve'' GET AnonymousUser [(''pk'', ''1'')]) = Inr villa
   \<and> l_slug villa = ''villa-1'' \<and> to_pk example_env ''1'' = Some (l_pk villa)
   \<and> ListingViewset_get_object example_env example_db
       (example_request ''retrieve'' GET AnonymousUser [(''pk'', ''villa-1'')]) = Inl Http404"
  using listing_resolved_by_pk [of example_env example_db
      "example_request ''retrieve'' GET AnonymousUser [(''pk'', ''1'')]" villa]
    listing_resolved_by_pk [of example_env example_db
      "example_request ''retrieve'' GET AnonymousUser [(''pk'', ''villa-1'')]" villa "''villa-1''"]
  by (simp add: ListingViewset_get_object_eq Listing_filter_def and_then_def
      check_object_permissions_def example_env_def example_db_def example_request_def villa_def)

end
